theory Spec2Isabelle
  imports Main
begin

section \<open>Values, documents and exceptions\<close>

text \<open>
  The handlers of \<^verbatim>\<open>auth_routes.py\<close> and \<^verbatim>\<open>routes.py\<close> read and write MongoDB
  documents, which reach Python as plain dictionaries. A document is a partial map from
  field names to values; the values are the ones the pydantic models of \<^verbatim>\<open>models.py\<close>
  put there (strings, integers, booleans, \<^verbatim>\<open>None\<close>, datetimes) and the \<^verbatim>\<open>_id\<close> the driver
  adds. Time is a count of milliseconds, the precision the store keeps. A Python string is
  a list of characters, and \<^verbatim>\<open>len\<close> is the length of that list.
\<close>

datatype val = VStr string | VInt int | VBool bool | VNone | VDatetime nat | VObjectId nat

type_synonym doc = "string \<rightharpoonup> val"

text \<open>Python truthiness, as \<^verbatim>\<open>if not x\<close> tests it.\<close>

fun truthy :: "val \<Rightarrow> bool" where
  "truthy (VStr s) = (s \<noteq> [])"
| "truthy (VInt i) = (i \<noteq> 0)"
| "truthy (VBool b) = b"
| "truthy VNone = False"
| "truthy (VDatetime t) = True"
| "truthy (VObjectId n) = True"

text \<open>
  The exceptions a call can end with. \<open>HTTPException\<close> carries status code, detail and
  headers; every other exception that leaves a handler is answered with status 500. All
  classes listed derive from Python's \<^verbatim>\<open>Exception\<close>.
\<close>

datatype exn =
    HTTPException nat string "(string \<times> string) list"
  | KeyError string
  | ValidationError
  | StorageError
  | ImportError
  | SMTPAuthenticationError
  | SMTPNotSupportedError
  | SMTPServerDisconnected
  | SMTPException
  | OSError
  | TypeError
  | HeaderParseError
  | UnicodeEncodeError
  | RuntimeError

fun status_of :: "exn \<Rightarrow> nat" where
  "status_of (HTTPException code detail headers) = code"
| "status_of e = 500"

text \<open>\<^verbatim>\<open>d[k]\<close> raises \<^verbatim>\<open>KeyError\<close> on a missing key; \<^verbatim>\<open>d.get(k, default)\<close> does not.\<close>

definition getitem :: "doc \<Rightarrow> string \<Rightarrow> exn + val" where
  "getitem d k = (case d k of None \<Rightarrow> Inl (KeyError k) | Some v \<Rightarrow> Inr v)"

definition get_default :: "doc \<Rightarrow> string \<Rightarrow> val \<Rightarrow> val" where
  "get_default d k dflt = (case d k of None \<Rightarrow> dflt | Some v \<Rightarrow> v)"

text \<open>What one call draws from its surroundings: a uuid4, the clock, a driver object id.\<close>

record fresh =
  uuid4 :: string
  utcnow :: nat
  object_id :: nat

section \<open>The document store\<close>

text \<open>
  A collection is the list of its documents in insertion order. \<open>find_one\<close> with a filter
  \<^verbatim>\<open>{k: v}\<close> returns the first document whose field \<open>k\<close> holds \<open>v\<close>. \<open>insert_one\<close> appends,
  adding \<^verbatim>\<open>_id\<close> when the document has none. \<open>update_one\<close> with \<^verbatim>\<open>{"$set": fields}\<close>
  rewrites the first matching document and reports \<^verbatim>\<open>modified_count\<close>: 1 when that document
  changed, 0 when nothing matched or the fields already held the values written.
\<close>

definition find_one :: "doc list \<Rightarrow> string \<Rightarrow> val \<Rightarrow> doc option" where
  "find_one coll k v = List.find (\<lambda>d. d k = Some v) coll"

definition insert_one :: "doc list \<Rightarrow> nat \<Rightarrow> doc \<Rightarrow> doc list" where
  "insert_one coll oid d =
     coll @ [if d ''_id'' = None then d(''_id'' \<mapsto> VObjectId oid) else d]"

fun set_fields :: "doc \<Rightarrow> (string \<times> val) list \<Rightarrow> doc" where
  "set_fields d [] = d"
| "set_fields d ((k, v) # kvs) = set_fields (d(k \<mapsto> v)) kvs"

definition changes :: "doc \<Rightarrow> (string \<times> val) list \<Rightarrow> bool" where
  "changes d kvs = list_ex (\<lambda>(k, v). set_fields d kvs k \<noteq> d k) kvs"

fun update_one :: "doc list \<Rightarrow> string \<Rightarrow> val \<Rightarrow> (string \<times> val) list \<Rightarrow> doc list \<times> nat" where
  "update_one [] k v kvs = ([], 0)"
| "update_one (d # ds) k v kvs =
     (if d k = Some v then (set_fields d kvs # ds, if changes d kvs then 1 else 0)
      else (case update_one ds k v kvs of (ds', n) \<Rightarrow> (d # ds', n)))"

section \<open>Models of \<^verbatim>\<open>models.py\<close>\<close>

record AdminUser =
  id' :: string
  username :: string
  email :: string
  hashed_password :: string
  full_name :: "string option"
  is_active :: bool
  is_superuser :: bool
  created_at :: nat

record AdminUserCreate =
  username :: string
  email :: string
  password :: string
  full_name :: "string option"

record AdminUserLogin =
  username :: string
  password :: string

record 'tok Token =
  access_token :: 'tok
  token_type :: string

record PasswordChange =
  current_password :: string
  new_password :: string

definition opt_str :: "string option \<Rightarrow> val" where
  "opt_str s = (case s of None \<Rightarrow> VNone | Some x \<Rightarrow> VStr x)"

text \<open>\<^verbatim>\<open>AdminUser.dict()\<close>: every field of the model, by name.\<close>

definition AdminUser_dict :: "AdminUser \<Rightarrow> doc" where
  "AdminUser_dict u =
     [''id'' \<mapsto> VStr (AdminUser.id' u),
      ''username'' \<mapsto> VStr (AdminUser.username u),
      ''email'' \<mapsto> VStr (AdminUser.email u),
      ''hashed_password'' \<mapsto> VStr (hashed_password u),
      ''full_name'' \<mapsto> opt_str (AdminUser.full_name u),
      ''is_active'' \<mapsto> VBool (is_active u),
      ''is_superuser'' \<mapsto> VBool (is_superuser u),
      ''created_at'' \<mapsto> VDatetime (AdminUser.created_at u)]"

section \<open>Account handlers of \<^verbatim>\<open>auth_routes.py\<close>\<close>

text \<open>
  The module \<^verbatim>\<open>auth\<close> that \<^verbatim>\<open>auth_routes.py\<close> imports is not among the sources. Its
  functions are parameters of the handlers: \<open>get_password_hash\<close> maps a plaintext to the
  hash string of this call, \<open>verify_password\<close> decides a plaintext against a stored value,
  \<open>create_access_token\<close> maps the claims and a validity to the token of this call. The
  current user that \<^verbatim>\<open>get_current_user\<close> resolves is an argument.

  A handler returns the exception it raises (\<open>Inl\<close>) or the status code and the returned
  object (\<open>Inr\<close>), and the collection as the call leaves it.
\<close>

definition register_admin ::
  "(string \<Rightarrow> string) \<Rightarrow> fresh \<Rightarrow> doc list \<Rightarrow> AdminUserCreate \<Rightarrow> (exn + nat \<times> AdminUser) \<times> doc list" where
  "register_admin get_password_hash fr coll user =
     (case find_one coll ''username'' (VStr (AdminUserCreate.username user)) of
        Some existing \<Rightarrow> (Inl (HTTPException 400 ''Username already registered'' []), coll)
      | None \<Rightarrow>
         (case find_one coll ''email'' (VStr (AdminUserCreate.email user)) of
            Some existing_email \<Rightarrow> (Inl (HTTPException 400 ''Email already registered'' []), coll)
          | None \<Rightarrow>
             (let admin_obj =
                    \<lparr>AdminUser.id' = uuid4 fr,
                     AdminUser.username = AdminUserCreate.username user,
                     AdminUser.email = AdminUserCreate.email user,
                     AdminUser.hashed_password = get_password_hash (AdminUserCreate.password user),
                     AdminUser.full_name = AdminUserCreate.full_name user,
                     AdminUser.is_active = True,
                     AdminUser.is_superuser = False,
                     AdminUser.created_at = utcnow fr\<rparr>
              in (Inr (201, admin_obj),
                  insert_one coll (object_id fr) (AdminUser_dict admin_obj)))))"

text \<open>
  The route is declared with \<^verbatim>\<open>response_model=AdminUser\<close>: the body sent to the client is
  the returned object serialised field by field through that model.
\<close>

definition register_response :: "(exn + nat \<times> AdminUser) \<Rightarrow> (exn + nat \<times> doc)" where
  "register_response r = (case r of Inl e \<Rightarrow> Inl e | Inr (code, obj) \<Rightarrow> Inr (code, AdminUser_dict obj))"

definition timedelta_minutes :: "nat \<Rightarrow> nat" where
  "timedelta_minutes m = 60 * m"

definition login ::
  "(string \<Rightarrow> val \<Rightarrow> bool) \<Rightarrow> (doc \<Rightarrow> nat \<Rightarrow> 'tok) \<Rightarrow> doc list \<Rightarrow> AdminUserLogin \<Rightarrow> exn + nat \<times> 'tok Token" where
  "login verify_password create_access_token coll credentials =
     (case find_one coll ''username'' (VStr (AdminUserLogin.username credentials)) of
        None \<Rightarrow> Inl (HTTPException 401 ''Incorrect username or password''
                       [(''WWW-Authenticate'', ''Bearer'')])
      | Some user \<Rightarrow>
         (case getitem user ''hashed_password'' of
            Inl e \<Rightarrow> Inl e
          | Inr h \<Rightarrow>
             if \<not> verify_password (AdminUserLogin.password credentials) h
             then Inl (HTTPException 401 ''Incorrect username or password''
                         [(''WWW-Authenticate'', ''Bearer'')])
             else if \<not> truthy (get_default user ''is_active'' (VBool True))
             then Inl (HTTPException 400 ''Inactive user'' [])
             else
               (case getitem user ''username'' of
                  Inl e \<Rightarrow> Inl e
                | Inr sub \<Rightarrow>
                   (case getitem user ''id'' of
                      Inl e \<Rightarrow> Inl e
                    | Inr user_id \<Rightarrow>
                       Inr (200,
                            \<lparr>access_token =
                               create_access_token [''sub'' \<mapsto> sub, ''user_id'' \<mapsto> user_id]
                                 (timedelta_minutes 1440),
                             token_type = ''bearer''\<rparr>)))))"

definition get_current_user_info :: "doc list \<Rightarrow> doc \<Rightarrow> exn + nat \<times> doc" where
  "get_current_user_info coll current_user =
     (case getitem current_user ''username'' of
        Inl e \<Rightarrow> Inl e
      | Inr uname \<Rightarrow>
         (case find_one coll ''username'' uname of
            None \<Rightarrow> Inl (HTTPException 404 ''User not found'' [])
          | Some user \<Rightarrow> Inr (200, user(''hashed_password'' := None, ''_id'' := None))))"

definition logout :: "doc \<Rightarrow> exn + nat \<times> doc" where
  "logout current_user = Inr (200, [''message'' \<mapsto> VStr ''Successfully logged out''])"

definition change_password ::
  "(string \<Rightarrow> val \<Rightarrow> bool) \<Rightarrow> (string \<Rightarrow> string) \<Rightarrow> doc list \<Rightarrow> PasswordChange \<Rightarrow> doc
     \<Rightarrow> (exn + nat \<times> doc) \<times> doc list" where
  "change_password verify_password get_password_hash coll password_data current_user =
     (case getitem current_user ''username'' of
        Inl e \<Rightarrow> (Inl e, coll)
      | Inr uname \<Rightarrow>
         (case find_one coll ''username'' uname of
            None \<Rightarrow> (Inl (HTTPException 404 ''User not found'' []), coll)
          | Some user \<Rightarrow>
             (case getitem user ''hashed_password'' of
                Inl e \<Rightarrow> (Inl e, coll)
              | Inr h \<Rightarrow>
                 if \<not> verify_password (current_password password_data) h
                 then (Inl (HTTPException 400 ''Current password is incorrect'' []), coll)
                 else if length (new_password password_data) < 6
                 then (Inl (HTTPException 400
                              ''New password must be at least 6 characters long'' []), coll)
                 else if current_password password_data = new_password password_data
                 then (Inl (HTTPException 400
                              ''New password must be different from current password'' []), coll)
                 else
                   (let new_hashed_password = get_password_hash (new_password password_data)
                    in (Inr (200, [''message'' \<mapsto> VStr ''Password changed successfully'']),
                        fst (update_one coll ''username'' uname
                               [(''hashed_password'', VStr new_hashed_password)]))))))"

section \<open>Booking handlers of \<^verbatim>\<open>routes.py\<close>\<close>

record BookingCreate =
  name :: string
  email :: string
  phone :: string
  event_type :: string
  date :: string
  guests :: int
  message :: "string option"

record Booking =
  id' :: string
  name :: string
  email :: string
  phone :: string
  event_type :: string
  date :: string
  guests :: int
  message :: "string option"
  status :: string
  created_at :: nat

text \<open>\<^verbatim>\<open>Booking.dict()\<close>: every field of the model, by name.\<close>

definition Booking_dict :: "Booking \<Rightarrow> doc" where
  "Booking_dict b =
     [''id'' \<mapsto> VStr (Booking.id' b),
      ''name'' \<mapsto> VStr (Booking.name b),
      ''email'' \<mapsto> VStr (Booking.email b),
      ''phone'' \<mapsto> VStr (Booking.phone b),
      ''event_type'' \<mapsto> VStr (Booking.event_type b),
      ''date'' \<mapsto> VStr (Booking.date b),
      ''guests'' \<mapsto> VInt (Booking.guests b),
      ''message'' \<mapsto> opt_str (Booking.message b),
      ''status'' \<mapsto> VStr (status b),
      ''created_at'' \<mapsto> VDatetime (Booking.created_at b)]"

text \<open>
  \<^verbatim>\<open>Booking(**booking.dict())\<close> on a validated \<open>BookingCreate\<close>: the fields given, the id
  and the creation time from their default factories, the status from its default.
\<close>

definition Booking_of :: "fresh \<Rightarrow> BookingCreate \<Rightarrow> Booking" where
  "Booking_of fr booking =
     \<lparr>Booking.id' = uuid4 fr,
      Booking.name = BookingCreate.name booking,
      Booking.email = BookingCreate.email booking,
      Booking.phone = BookingCreate.phone booking,
      Booking.event_type = BookingCreate.event_type booking,
      Booking.date = BookingCreate.date booking,
      Booking.guests = BookingCreate.guests booking,
      Booking.message = BookingCreate.message booking,
      status = ''pending'',
      Booking.created_at = utcnow fr\<rparr>"

text \<open>
  \<^verbatim>\<open>Booking(**doc)\<close> on a stored document: pydantic validation. A required field that is
  missing raises \<open>ValidationError\<close>; a field with a default takes it when missing; keys
  the model does not declare (\<^verbatim>\<open>_id\<close>, \<^verbatim>\<open>updated_at\<close>) are ignored. A value of the
  field's own type is taken as it is. A value of another type goes through pydantic's
  conversion to the field's type (a stored \<^verbatim>\<open>'80'\<close> for an integer field becomes 80),
  which depends on the library version: the conversions are a parameter, giving the
  converted value, or \<open>None\<close> where the library rejects the value.
\<close>

record coercion =
  to_str :: "val \<Rightarrow> string option"
  to_int :: "val \<Rightarrow> int option"
  to_datetime :: "val \<Rightarrow> nat option"

definition coerced :: "'a option \<Rightarrow> exn + 'a" where
  "coerced r = (case r of None \<Rightarrow> Inl ValidationError | Some x \<Rightarrow> Inr x)"

definition field_str :: "coercion \<Rightarrow> doc \<Rightarrow> string \<Rightarrow> exn + string" where
  "field_str cv d k =
     (case d k of
        None \<Rightarrow> Inl ValidationError
      | Some (VStr s) \<Rightarrow> Inr s
      | Some v \<Rightarrow> coerced (to_str cv v))"

definition field_str_default :: "coercion \<Rightarrow> doc \<Rightarrow> string \<Rightarrow> string \<Rightarrow> exn + string" where
  "field_str_default cv d k dflt =
     (case d k of
        None \<Rightarrow> Inr dflt
      | Some (VStr s) \<Rightarrow> Inr s
      | Some v \<Rightarrow> coerced (to_str cv v))"

definition field_int :: "coercion \<Rightarrow> doc \<Rightarrow> string \<Rightarrow> exn + int" where
  "field_int cv d k =
     (case d k of
        None \<Rightarrow> Inl ValidationError
      | Some (VInt i) \<Rightarrow> Inr i
      | Some v \<Rightarrow> coerced (to_int cv v))"

definition field_opt_str :: "coercion \<Rightarrow> doc \<Rightarrow> string \<Rightarrow> exn + string option" where
  "field_opt_str cv d k =
     (case d k of
        None \<Rightarrow> Inr None
      | Some VNone \<Rightarrow> Inr None
      | Some (VStr s) \<Rightarrow> Inr (Some s)
      | Some v \<Rightarrow> (case to_str cv v of None \<Rightarrow> Inl ValidationError | Some s \<Rightarrow> Inr (Some s)))"

definition field_datetime_default :: "coercion \<Rightarrow> doc \<Rightarrow> string \<Rightarrow> nat \<Rightarrow> exn + nat" where
  "field_datetime_default cv d k dflt =
     (case d k of
        None \<Rightarrow> Inr dflt
      | Some (VDatetime t) \<Rightarrow> Inr t
      | Some v \<Rightarrow> coerced (to_datetime cv v))"

text \<open>Sequencing of steps that may raise: the first exception ends the computation.\<close>

definition and_then :: "exn + 'a \<Rightarrow> ('a \<Rightarrow> exn + 'b) \<Rightarrow> exn + 'b" where
  "and_then r f = (case r of Inl e \<Rightarrow> Inl e | Inr x \<Rightarrow> f x)"

definition Booking_parse :: "coercion \<Rightarrow> fresh \<Rightarrow> doc \<Rightarrow> exn + Booking" where
  "Booking_parse cv fr d =
     and_then (field_str_default cv d ''id'' (uuid4 fr)) (\<lambda>f_id.
     and_then (field_str cv d ''name'') (\<lambda>f_name.
     and_then (field_str cv d ''email'') (\<lambda>f_email.
     and_then (field_str cv d ''phone'') (\<lambda>f_phone.
     and_then (field_str cv d ''event_type'') (\<lambda>f_event_type.
     and_then (field_str cv d ''date'') (\<lambda>f_date.
     and_then (field_int cv d ''guests'') (\<lambda>f_guests.
     and_then (field_opt_str cv d ''message'') (\<lambda>f_message.
     and_then (field_str_default cv d ''status'' ''pending'') (\<lambda>f_status.
     and_then (field_datetime_default cv d ''created_at'' (utcnow fr)) (\<lambda>f_created_at.
       Inr \<lparr>Booking.id' = f_id, Booking.name = f_name, Booking.email = f_email,
            Booking.phone = f_phone, Booking.event_type = f_event_type,
            Booking.date = f_date, Booking.guests = f_guests,
            Booking.message = f_message, status = f_status,
            Booking.created_at = f_created_at\<rparr>))))))))))"

text \<open>
  What a call of \<open>create_booking\<close> does besides answering, in order: the insert, the call of
  the notification sender with the dictionary it was given, the error it logs.
\<close>

datatype event = Inserted doc | NotificationAttempt doc | LoggedError exn

text \<open>
  \<open>create_booking\<close>. The function first imports \<^verbatim>\<open>send_booking_notification\<close> from
  \<^verbatim>\<open>email_service\<close>; \<open>imported\<close> is the outcome of that import, the exception it raised or
  the sender. \<open>insert_fault\<close> is the outcome of the storage call: \<open>None\<close> when the insert is
  carried out, the storage error otherwise. The sender returns its boolean or raises. The
  result is the answer, the collection after the call, and the events in order.
\<close>

definition create_booking ::
  "(exn + (doc \<Rightarrow> exn + bool)) \<Rightarrow> exn option \<Rightarrow> fresh \<Rightarrow> doc list \<Rightarrow> BookingCreate
     \<Rightarrow> (exn + nat \<times> Booking) \<times> doc list \<times> event list" where
  "create_booking imported insert_fault fr coll booking =
     (case imported of
        Inl e \<Rightarrow> (Inl e, coll, [])
      | Inr send_booking_notification \<Rightarrow>
         (let booking_obj = Booking_of fr booking in
          case insert_fault of
            Some e \<Rightarrow> (Inl e, coll, [])
          | None \<Rightarrow>
             (let coll' = insert_one coll (object_id fr) (Booking_dict booking_obj);
                  logged = (case send_booking_notification (Booking_dict booking_obj) of
                              Inl e \<Rightarrow> [LoggedError e]
                            | Inr sent \<Rightarrow> [])
              in (Inr (201, booking_obj), coll',
                  Inserted (Booking_dict booking_obj)
                    # NotificationAttempt (Booking_dict booking_obj) # logged))))"

text \<open>
  \<open>update_booking_status\<close>. The write sets \<^verbatim>\<open>status\<close> and \<^verbatim>\<open>updated_at\<close> (the clock of this
  call) on the first enquiry with the given id; the handler then reads
  \<^verbatim>\<open>result.modified_count\<close>. \<^verbatim>\<open>Booking(**None)\<close> raises \<open>TypeError\<close>.
\<close>

definition update_booking_status ::
  "coercion \<Rightarrow> fresh \<Rightarrow> doc list \<Rightarrow> string \<Rightarrow> string
     \<Rightarrow> (exn + nat \<times> Booking) \<times> doc list" where
  "update_booking_status cv fr coll booking_id new_status =
     (if new_status \<notin> set [''pending'', ''approved'', ''rejected'']
      then (Inl (HTTPException 400 ''Invalid status'' []), coll)
      else
        (case update_one coll ''id'' (VStr booking_id)
                [(''status'', VStr new_status), (''updated_at'', VDatetime (utcnow fr))] of
           (coll', modified_count) \<Rightarrow>
             if modified_count = 0
             then (Inl (HTTPException 404 ''Booking not found'' []), coll')
             else
               (case find_one coll' ''id'' (VStr booking_id) of
                  None \<Rightarrow> (Inl TypeError, coll')
                | Some updated \<Rightarrow>
                   (case Booking_parse cv fr updated of
                      Inl e \<Rightarrow> (Inl e, coll')
                    | Inr b \<Rightarrow> (Inr (200, b), coll')))))"

section \<open>The notification sender of \<^verbatim>\<open>email_service.py\<close>\<close>

text \<open>
  An f-string is the list of its pieces: the literal text and the values formatted into
  it. A datetime formatted by \<^verbatim>\<open>strftime\<close> is kept as the format and the time.
\<close>

datatype fragment = Lit string | Fmt val | Strftime string nat

type_synonym fstring = "fragment list"

fun renders_empty :: "fragment \<Rightarrow> bool" where
  "renders_empty (Lit s) = (s = [])"
| "renders_empty (Fmt v) = (v = VStr [])"
| "renders_empty (Strftime f t) = (f = [])"

text \<open>\<^verbatim>\<open>if text_body:\<close> holds for a string that is given and not empty.\<close>

definition text_truthy :: "fstring option \<Rightarrow> bool" where
  "text_truthy t = (case t of None \<Rightarrow> False | Some fs \<Rightarrow> list_ex (\<lambda>f. \<not> renders_empty f) fs)"

text \<open>The module constants, read from the environment when the module is loaded.\<close>

record smtp_config =
  SMTP_HOST :: string
  SMTP_PORT :: int
  SMTP_USERNAME :: string
  SMTP_PASSWORD :: string
  SMTP_FROM_EMAIL :: string
  SMTP_FROM_NAME :: string
  NOTIFICATION_EMAIL :: string

text \<open>
  The mail server as the sender meets it: for each step of the session, the exception the
  step raises when it is reached, or \<open>None\<close> when it goes through.
\<close>

record smtp_server =
  on_connect :: "exn option"
  on_starttls :: "exn option"
  on_login :: "exn option"
  on_sendmail :: "exn option"
  on_quit :: "exn option"

record email_message =
  msg_subject :: fstring
  msg_from :: fstring
  msg_to :: string
  msg_parts :: "(string \<times> fstring) list"

datatype smtp_event =
    Connect string int nat
  | StartTLS
  | Login string string
  | Sendmail string string email_message
  | Quit
  | LogWarning string
  | LogError string exn
  | LogInfo string

text \<open>The classes of \<^verbatim>\<open>smtplib\<close> that derive from \<^verbatim>\<open>smtplib.SMTPException\<close>.\<close>

fun is_SMTPException :: "exn \<Rightarrow> bool" where
  "is_SMTPException SMTPAuthenticationError = True"
| "is_SMTPException SMTPNotSupportedError = True"
| "is_SMTPException SMTPServerDisconnected = True"
| "is_SMTPException SMTPException = True"
| "is_SMTPException e = False"

text \<open>
  The standard \<^verbatim>\<open>email\<close> package as the sender meets it. Assembling the message
  (\<^verbatim>\<open>MIMEMultipart\<close>, the header assignments, \<^verbatim>\<open>MIMEText\<close>) and serialising it
  (\<^verbatim>\<open>msg.as_string()\<close>) can raise, for instance \<open>UnicodeEncodeError\<close> on a body that
  cannot be encoded and \<open>HeaderParseError\<close> on a subject that embeds a header line. For
  each of the two steps the package gives the exception raised on the given message, or
  \<open>None\<close> when the step goes through.
\<close>

record email_package =
  on_assemble :: "email_message \<Rightarrow> exn option"
  on_as_string :: "email_message \<Rightarrow> exn option"

text \<open>
  The message \<open>send_email\<close> assembles: subject, sender and recipient headers, the plain
  text part when a text body is given and not empty, then the HTML part.
\<close>

definition build_message ::
  "smtp_config \<Rightarrow> string \<Rightarrow> fstring \<Rightarrow> fstring \<Rightarrow> fstring option \<Rightarrow> email_message" where
  "build_message cfg to_email subject html_body text_body =
     \<lparr>msg_subject = subject,
      msg_from = [Fmt (VStr (SMTP_FROM_NAME cfg)), Lit '' <'',
                  Fmt (VStr (SMTP_FROM_EMAIL cfg)), Lit ''>''],
      msg_to = to_email,
      msg_parts = (case text_body of
                     None \<Rightarrow> []
                   | Some t \<Rightarrow> if text_truthy (Some t) then [(''plain'', t)] else [])
                  @ [(''html'', html_body)]\<rparr>"

text \<open>
  The body of the \<^verbatim>\<open>with smtplib.SMTP(...) as server\<close> block: STARTTLS, whose
  \<^verbatim>\<open>SMTPException\<close> is passed over, then login, then the serialisation of the message,
  which is an argument of \<^verbatim>\<open>sendmail\<close> and so comes before that call, then sendmail.
\<close>

definition smtp_body ::
  "smtp_config \<Rightarrow> email_package \<Rightarrow> smtp_server \<Rightarrow> string \<Rightarrow> email_message
     \<Rightarrow> (exn + unit) \<times> smtp_event list" where
  "smtp_body cfg pkg srv to_email msg =
     (case (case on_starttls srv of
              None \<Rightarrow> None
            | Some e \<Rightarrow> if is_SMTPException e then None else Some e) of
        Some e \<Rightarrow> (Inl e, [StartTLS])
      | None \<Rightarrow>
         (case on_login srv of
            Some e \<Rightarrow> (Inl e, [StartTLS, Login (SMTP_USERNAME cfg) (SMTP_PASSWORD cfg)])
          | None \<Rightarrow>
             (case on_as_string pkg msg of
                Some e \<Rightarrow> (Inl e, [StartTLS, Login (SMTP_USERNAME cfg) (SMTP_PASSWORD cfg)])
              | None \<Rightarrow>
                 (case on_sendmail srv of
                    Some e \<Rightarrow>
                      (Inl e, [StartTLS, Login (SMTP_USERNAME cfg) (SMTP_PASSWORD cfg),
                               Sendmail (SMTP_FROM_EMAIL cfg) to_email msg])
                  | None \<Rightarrow>
                      (Inr (), [StartTLS, Login (SMTP_USERNAME cfg) (SMTP_PASSWORD cfg),
                                Sendmail (SMTP_FROM_EMAIL cfg) to_email msg])))))"

text \<open>
  Leaving the \<^verbatim>\<open>with\<close> block sends QUIT, passing over \<^verbatim>\<open>SMTPServerDisconnected\<close>; any
  other exception of QUIT replaces the outcome of the body.
\<close>

definition smtp_exit :: "smtp_server \<Rightarrow> exn + unit" where
  "smtp_exit srv =
     (case on_quit srv of
        None \<Rightarrow> Inr ()
      | Some e \<Rightarrow> if e = SMTPServerDisconnected then Inr () else Inl e)"

definition smtp_session ::
  "smtp_config \<Rightarrow> email_package \<Rightarrow> smtp_server \<Rightarrow> string \<Rightarrow> email_message
     \<Rightarrow> (exn + unit) \<times> smtp_event list" where
  "smtp_session cfg pkg srv to_email msg =
     (case on_connect srv of
        Some e \<Rightarrow> (Inl e, [Connect (SMTP_HOST cfg) (SMTP_PORT cfg) 30])
      | None \<Rightarrow>
         (case smtp_body cfg pkg srv to_email msg of
            (body, evs) \<Rightarrow>
              (case smtp_exit srv of Inl e \<Rightarrow> Inl e | Inr u \<Rightarrow> body,
               Connect (SMTP_HOST cfg) (SMTP_PORT cfg) 30 # evs @ [Quit])))"

text \<open>
  The \<^verbatim>\<open>try\<close> block of \<open>send_email\<close>: the message is assembled, then the session runs.
  The result is the exception the block ends with, if any, and the events in order.
\<close>

definition send_email_try ::
  "smtp_config \<Rightarrow> email_package \<Rightarrow> smtp_server \<Rightarrow> string \<Rightarrow> fstring \<Rightarrow> fstring
     \<Rightarrow> fstring option \<Rightarrow> (exn + unit) \<times> smtp_event list" where
  "send_email_try cfg pkg srv to_email subject html_body text_body =
     (let msg = build_message cfg to_email subject html_body text_body in
      case on_assemble pkg msg of
        Some e \<Rightarrow> (Inl e, [])
      | None \<Rightarrow> smtp_session cfg pkg srv to_email msg)"

text \<open>
  \<open>send_email\<close>. The result is the returned boolean (\<open>Inr\<close>) or the exception that leaves
  the function (\<open>Inl\<close>), and what the call did, in order. The three \<^verbatim>\<open>except\<close> clauses
  are tried in the order of the source.
\<close>

definition send_email ::
  "smtp_config \<Rightarrow> email_package \<Rightarrow> smtp_server \<Rightarrow> string \<Rightarrow> fstring \<Rightarrow> fstring
     \<Rightarrow> fstring option \<Rightarrow> (exn + bool) \<times> smtp_event list" where
  "send_email cfg pkg srv to_email subject html_body text_body =
     (if \<not> (SMTP_HOST cfg \<noteq> [] \<and> SMTP_USERNAME cfg \<noteq> [] \<and> SMTP_PASSWORD cfg \<noteq> []
             \<and> SMTP_FROM_EMAIL cfg \<noteq> [])
      then (Inr False, [LogWarning ''SMTP not configured - email not sent''])
      else
        (case send_email_try cfg pkg srv to_email subject html_body text_body of
           (Inr u, evs) \<Rightarrow> (Inr True, evs @ [LogInfo (''Email sent successfully to '' @ to_email)])
         | (Inl e, evs) \<Rightarrow>
             if e = SMTPAuthenticationError
             then (Inr False, evs @ [LogError ''SMTP Authentication failed: '' e])
             else if is_SMTPException e
             then (Inr False, evs @ [LogError ''SMTP error sending email: '' e])
             else (Inr False, evs @ [LogError ''Failed to send email: '' e])))"

text \<open>
  \<open>send_booking_notification\<close> builds subject and bodies outside any \<^verbatim>\<open>try\<close>. These
  steps return for every document: \<^verbatim>\<open>booking.get\<close> does not raise, only a datetime is
  passed to \<^verbatim>\<open>strftime\<close>, and formatting a string, integer, boolean, \<^verbatim>\<open>None\<close>,
  datetime or object id into an f-string does not raise.
\<close>

definition booking_date :: "doc \<Rightarrow> fragment" where
  "booking_date booking =
     (case get_default booking ''date'' (VStr ''Not specified'') of
        VDatetime t \<Rightarrow> Strftime ''%A, %d %B %Y'' t
      | v \<Rightarrow> Fmt v)"

definition booking_subject :: "doc \<Rightarrow> fstring" where
  "booking_subject booking =
     [Lit ''New Hall Booking Enquiry - '', Fmt (get_default booking ''name'' (VStr ''Unknown''))]"

definition booking_html_body :: "doc \<Rightarrow> fstring" where
  \<open>booking_html_body booking =
     [Lit (''\<newline>''
        @ ''    <!DOCTYPE html>\<newline>''
        @ ''    <html>\<newline>''
        @ ''    <head>\<newline>''
        @ ''        <style>\<newline>''
        @ ''            body { font-family: Arial, sans-serif; line-height: 1.6; color: #333; }\<newline>''
        @ ''            .container { max-width: 600px; margin: 0 auto; padding: 20px; }\<newline>''
        @ ''            .header { background-color: #DC2626; color: white; padding: 20px; text-align: center; }\<newline>''
        @ ''            .header h1 { margin: 0; font-size: 24px; }\<newline>''
        @ ''            .content { padding: 20px; background-color: #f9f9f9; }\<newline>''
        @ ''            .field { margin-bottom: 15px; }\<newline>''
        @ ''            .field-label { font-weight: bold; color: #DC2626; }\<newline>''
        @ ''            .field-value { margin-top: 5px; }\<newline>''
        @ ''            .message-box { background-color: white; padding: 15px; border-left: 4px solid #DC2626; margin-top: 10px; }\<newline>''
        @ ''            .footer { text-align: center; padding: 20px; color: #666; font-size: 12px; }\<newline>''
        @ ''        </style>\<newline>''
        @ ''    </head>\<newline>''
        @ ''    <body>\<newline>''
        @ ''        <div class="container">\<newline>''
        @ ''            <div class="header">\<newline>''
        @ ''                <h1>New Hall Booking Enquiry</h1>\<newline>''
        @ ''            </div>\<newline>''
        @ ''            <div class="content">\<newline>''
        @ ''                <p>A new hall booking enquiry has been submitted through the website:</p>\<newline>''
        @ ''                \<newline>''
        @ ''                <div class="field">\<newline>''
        @ ''                    <div class="field-label">Contact Name:</div>\<newline>''
        @ ''                    <div class="field-value">''),
      Fmt (get_default booking ''name'' (VStr ''Not provided'')),
      Lit (''</div>\<newline>''
        @ ''                </div>\<newline>''
        @ ''                \<newline>''
        @ ''                <div class="field">\<newline>''
        @ ''                    <div class="field-label">Email:</div>\<newline>''
        @ ''                    <div class="field-value"><a href="mailto:''),
      Fmt (get_default booking ''email'' (VStr '''')),
      Lit ''">'',
      Fmt (get_default booking ''email'' (VStr ''Not provided'')),
      Lit (''</a></div>\<newline>''
        @ ''                </div>\<newline>''
        @ ''                \<newline>''
        @ ''                <div class="field">\<newline>''
        @ ''                    <div class="field-label">Phone:</div>\<newline>''
        @ ''                    <div class="field-value">''),
      Fmt (get_default booking ''phone'' (VStr ''Not provided'')),
      Lit (''</div>\<newline>''
        @ ''                </div>\<newline>''
        @ ''                \<newline>''
        @ ''                <div class="field">\<newline>''
        @ ''                    <div class="field-label">Event Type:</div>\<newline>''
        @ ''                    <div class="field-value">''),
      Fmt (get_default booking ''event_type'' (VStr ''Not specified'')),
      Lit (''</div>\<newline>''
        @ ''                </div>\<newline>''
        @ ''                \<newline>''
        @ ''                <div class="field">\<newline>''
        @ ''                    <div class="field-label">Requested Date:</div>\<newline>''
        @ ''                    <div class="field-value">''),
      booking_date booking,
      Lit (''</div>\<newline>''
        @ ''                </div>\<newline>''
        @ ''                \<newline>''
        @ ''                <div class="field">\<newline>''
        @ ''                    <div class="field-label">Expected Guests:</div>\<newline>''
        @ ''                    <div class="field-value">''),
      Fmt (get_default booking ''guests'' (VStr ''Not specified'')),
      Lit (''</div>\<newline>''
        @ ''                </div>\<newline>''
        @ ''                \<newline>''
        @ ''                <div class="field">\<newline>''
        @ ''                    <div class="field-label">Additional Message:</div>\<newline>''
        @ ''                    <div class="message-box">''),
      Fmt (get_default booking ''message'' (VStr ''No additional message'')),
      Lit (''</div>\<newline>''
        @ ''                </div>\<newline>''
        @ ''            </div>\<newline>''
        @ ''            <div class="footer">\<newline>''
        @ ''                <p>This is an automated notification from the Polish Association of Newcastle website.</p>\<newline>''
        @ ''                <p>Please log in to the <a href="https://polishassociationnewcastle.org.au/admin">Admin Panel</a> to manage this booking.</p>\<newline>''
        @ ''            </div>\<newline>''
        @ ''        </div>\<newline>''
        @ ''    </body>\<newline>''
        @ ''    </html>\<newline>''
        @ ''    '')]\<close>

definition booking_text_body :: "doc \<Rightarrow> fstring" where
  \<open>booking_text_body booking =
     [Lit (''\<newline>''
        @ ''New Hall Booking Enquiry\<newline>''
        @ ''\<newline>''
        @ ''Contact Name: ''),
      Fmt (get_default booking ''name'' (VStr ''Not provided'')),
      Lit (''\<newline>''
        @ ''Email: ''),
      Fmt (get_default booking ''email'' (VStr ''Not provided'')),
      Lit (''\<newline>''
        @ ''Phone: ''),
      Fmt (get_default booking ''phone'' (VStr ''Not provided'')),
      Lit (''\<newline>''
        @ ''Event Type: ''),
      Fmt (get_default booking ''event_type'' (VStr ''Not specified'')),
      Lit (''\<newline>''
        @ ''Requested Date: ''),
      booking_date booking,
      Lit (''\<newline>''
        @ ''Expected Guests: ''),
      Fmt (get_default booking ''guests'' (VStr ''Not specified'')),
      Lit (''\<newline>''
        @ ''\<newline>''
        @ ''Additional Message:\<newline>''),
      Fmt (get_default booking ''message'' (VStr ''No additional message'')),
      Lit (''\<newline>''
        @ ''\<newline>''
        @ ''---\<newline>''
        @ ''This is an automated notification from the Polish Association of Newcastle website.\<newline>''
        @ ''    '')]\<close>

definition send_booking_notification ::
  "smtp_config \<Rightarrow> email_package \<Rightarrow> smtp_server \<Rightarrow> doc
     \<Rightarrow> (exn + bool) \<times> smtp_event list" where
  "send_booking_notification cfg pkg srv booking =
     (if NOTIFICATION_EMAIL cfg = []
      then (Inr False, [LogWarning ''NOTIFICATION_EMAIL not configured''])
      else send_email cfg pkg srv (NOTIFICATION_EMAIL cfg) (booking_subject booking)
             (booking_html_body booking) (Some (booking_text_body booking)))"

section \<open>The token service and the password hasher, from the specification\<close>

text \<open>
  The module \<^verbatim>\<open>auth\<close> is not among the sources. The two components it implements are
  written here as the specification describes them (sections 3, 4.1 and 4.2). Token times
  are counted in seconds.
\<close>

datatype auth_error = InvalidSignature | Expired

text \<open>
  Modelled from the spec: the Token of section 3, which is missing with the module
  \<^verbatim>\<open>auth\<close>. A signed payload containing the claims (subject username, subject id), the
  issuance time and the expiry time, and the signature over that payload.
\<close>

record 'sig token =
  token_claims :: doc
  issued_at :: nat
  expires_at :: nat
  token_signature :: 'sig

text \<open>
  Modelled from the spec: \<^verbatim>\<open>issue(claims, validity_duration)\<close> of section 4.2, missing with
  the module \<^verbatim>\<open>auth\<close> (there \<^verbatim>\<open>create_access_token\<close>). It embeds the claims, issued-at and
  expires-at, the expiry being issuance time plus the validity, and signs the payload;
  \<open>sign\<close> is the signature function under the server's secret, \<open>now\<close> the clock at the call.
\<close>

definition create_access_token_spec ::
  "(doc \<times> nat \<times> nat \<Rightarrow> 'sig) \<Rightarrow> nat \<Rightarrow> doc \<Rightarrow> nat \<Rightarrow> 'sig token" where
  "create_access_token_spec sign now claims validity =
     \<lparr>token_claims = claims, issued_at = now, expires_at = now + validity,
      token_signature = sign (claims, now, now + validity)\<rparr>"

text \<open>
  Modelled from the spec: \<^verbatim>\<open>verify(token_string)\<close> of section 4.2, missing with the module
  \<^verbatim>\<open>auth\<close>. It checks the signature first and fails with \<open>InvalidSignature\<close> on mismatch,
  then checks expiry and fails with \<open>Expired\<close> if the current time is at or past
  expires-at, then returns the embedded claims.
\<close>

definition verify_token_spec ::
  "(doc \<times> nat \<times> nat \<Rightarrow> 'sig) \<Rightarrow> nat \<Rightarrow> 'sig token \<Rightarrow> auth_error + doc" where
  "verify_token_spec sign now tok =
     (if token_signature tok \<noteq> sign (token_claims tok, issued_at tok, expires_at tok)
      then Inl InvalidSignature
      else if expires_at tok \<le> now then Inl Expired
      else Inr (token_claims tok))"

text \<open>
  Modelled from the spec: \<^verbatim>\<open>hash(plaintext)\<close> of section 4.1, missing with the module
  \<^verbatim>\<open>auth\<close> (there \<^verbatim>\<open>get_password_hash\<close>). A randomly salted digest with the salt
  embedded in the hash string: the salt this call drew, of the fixed length \<open>n\<close>, followed
  by the digest of the plaintext under that salt. The digest function \<open>kdf\<close> is a parameter.
\<close>

definition get_password_hash_spec :: "(string \<Rightarrow> string \<Rightarrow> string) \<Rightarrow> string \<Rightarrow> string \<Rightarrow> string" where
  "get_password_hash_spec kdf salt plaintext = salt @ kdf salt plaintext"

text \<open>
  Modelled from the spec: the salt embedded in a stored hash string (section 4.1), missing
  with the module \<^verbatim>\<open>auth\<close>. A string shorter than a salt is malformed and embeds none.
\<close>

definition embedded_salt :: "nat \<Rightarrow> string \<Rightarrow> string option" where
  "embedded_salt n stored = (if length stored < n then None else Some (take n stored))"

text \<open>
  Modelled from the spec: \<^verbatim>\<open>verify(plaintext, hash_string)\<close> of section 4.1, missing with
  the module \<^verbatim>\<open>auth\<close> (there \<^verbatim>\<open>verify_password\<close>). True iff the plaintext, hashed with
  the hash's embedded salt, matches the stored hash; on a malformed stored hash it does
  not raise but answers false. The result is the boolean (\<open>Inr\<close>) or the exception raised.
\<close>

definition verify_password_spec ::
  "nat \<Rightarrow> (string \<Rightarrow> string \<Rightarrow> string) \<Rightarrow> string \<Rightarrow> string \<Rightarrow> exn + bool" where
  "verify_password_spec n kdf plaintext stored =
     (case embedded_salt n stored of
        None \<Rightarrow> Inr False
      | Some salt \<Rightarrow> Inr (get_password_hash_spec kdf salt plaintext = stored))"

section \<open>Example data\<close>

text \<open>
  A stored account written without the \<^verbatim>\<open>is_active\<close> field, and a hasher that prefixes the
  plaintext, with the verifier that goes with it.
\<close>

definition alice_doc :: doc where
  "alice_doc = [''id'' \<mapsto> VStr ''u-1'', ''username'' \<mapsto> VStr ''alice'',
                ''email'' \<mapsto> VStr ''alice@example.org'',
                ''hashed_password'' \<mapsto> VStr ''hashed:secret1'']"

definition example_verify :: "string \<Rightarrow> val \<Rightarrow> bool" where
  "example_verify p h = (h = VStr (''hashed:'' @ p))"

text \<open>
  A stored enquiry that was approved at time 5000, and a submission.
\<close>

definition approved_doc :: doc where
  "approved_doc =
     [''id'' \<mapsto> VStr ''b-1'', ''name'' \<mapsto> VStr ''Jan'', ''email'' \<mapsto> VStr ''jan@example.org'',
      ''phone'' \<mapsto> VStr ''0400'', ''event_type'' \<mapsto> VStr ''wedding'',
      ''date'' \<mapsto> VStr ''2025-01-01'', ''guests'' \<mapsto> VInt 80, ''message'' \<mapsto> VNone,
      ''status'' \<mapsto> VStr ''approved'', ''created_at'' \<mapsto> VDatetime 1000,
      ''_id'' \<mapsto> VObjectId 7, ''updated_at'' \<mapsto> VDatetime 5000]"


text \<open>
  A complete mail configuration, and a mail server that offers no STARTTLS and rejects the
  login.
\<close>

definition example_config :: smtp_config where
  "example_config =
     \<lparr>SMTP_HOST = ''mail.example.org'', SMTP_PORT = 25, SMTP_USERNAME = ''mailer'',
      SMTP_PASSWORD = ''pw'', SMTP_FROM_EMAIL = ''noreply@example.org'',
      SMTP_FROM_NAME = ''Polish Association of Newcastle'',
      NOTIFICATION_EMAIL = ''hall@example.org''\<rparr>"

definition rejecting_server :: smtp_server where
  "rejecting_server =
     \<lparr>on_connect = None, on_starttls = Some SMTPNotSupportedError,
      on_login = Some SMTPAuthenticationError, on_sendmail = None, on_quit = None\<rparr>"

text \<open>
  A mail server that accepts every step. An email package that never raises, and one whose
  serialisation refuses a subject into which a value with a line break is formatted. A
  stored enquiry whose contact name carries such a line break.
\<close>

definition accepting_server :: smtp_server where
  "accepting_server =
     \<lparr>on_connect = None, on_starttls = None, on_login = None, on_sendmail = None,
      on_quit = None\<rparr>"

definition plain_package :: email_package where
  "plain_package = \<lparr>on_assemble = (\<lambda>msg. None), on_as_string = (\<lambda>msg. None)\<rparr>"

fun embeds_line_break :: "fragment \<Rightarrow> bool" where
  "embeds_line_break (Fmt (VStr s)) = (CHR 0x0A \<in> set s)"
| "embeds_line_break f = False"

definition strict_package :: email_package where
  "strict_package =
     \<lparr>on_assemble = (\<lambda>msg. None),
      on_as_string = (\<lambda>msg. if list_ex embeds_line_break (msg_subject msg)
                             then Some HeaderParseError else None)\<rparr>"

definition injected_doc :: doc where
  "injected_doc = approved_doc(''name'' \<mapsto> VStr ''Jan\<newline>Bcc: x@example.org'')"

text \<open>The token alice is issued at time 100, signed by a sample signature function.\<close>

definition alice_token :: "(nat \<times> nat) token" where
  "alice_token =
     create_access_token_spec snd 100
       [''sub'' \<mapsto> VStr ''alice'', ''user_id'' \<mapsto> VStr ''u-1''] (timedelta_minutes 1440)"

section \<open>Facts about the store\<close>

lemma find_one_SomeD: "find_one coll k v = Some d \<Longrightarrow> d k = Some v \<and> d \<in> set coll"
  unfolding find_one_def by (auto simp: find_Some_iff)

lemma find_one_append:
  "find_one (coll @ [d]) k v =
     (case find_one coll k v of Some x \<Rightarrow> Some x | None \<Rightarrow> if d k = Some v then Some d else None)"
  unfolding find_one_def by (induction coll) auto

lemma update_one_hit:
  "find_one coll k v = Some d \<Longrightarrow>
   \<exists>i<length coll. coll ! i = d \<and> fst (update_one coll k v kvs) = coll[i := set_fields d kvs]"
proof (induction coll)
  case Nil
  then show ?case by (simp add: find_one_def)
next
  case (Cons a coll)
  show ?case
  proof (cases "a k = Some v")
    case True
    with Cons.prems have "a = d" by (simp add: find_one_def)
    with True show ?thesis by (intro exI[of _ 0]) simp
  next
    case False
    with Cons.prems have "find_one coll k v = Some d" by (simp add: find_one_def)
    from Cons.IH[OF this] obtain i where
      i: "i < length coll" "coll ! i = d" "fst (update_one coll k v kvs) = coll[i := set_fields d kvs]"
      by blast
    with False show ?thesis
      by (intro exI[of _ "Suc i"]) (auto split: prod.splits)
  qed
qed

lemma update_one_find:
  "find_one coll k v = Some d \<Longrightarrow> set_fields d kvs k = Some v \<Longrightarrow>
   find_one (fst (update_one coll k v kvs)) k v = Some (set_fields d kvs)"
proof (induction coll)
  case Nil
  then show ?case by (simp add: find_one_def)
next
  case (Cons a coll)
  then show ?case
    by (cases "a k = Some v") (auto simp: find_one_def split: prod.splits)
qed

lemma get_current_user_info_strips_hash:
  "get_current_user_info coll current_user = Inr (code, body) \<Longrightarrow> body ''hashed_password'' = None"
  by (auto simp: get_current_user_info_def split: sum.splits option.splits)

lemma update_one_miss: "find_one coll k v = None \<Longrightarrow> update_one coll k v kvs = (coll, 0)"
  by (induction coll) (auto simp: find_one_def)

lemma update_one_count:
  "find_one coll k v = Some d \<Longrightarrow>
   snd (update_one coll k v kvs) = (if changes d kvs then 1 else 0)"
  by (induction coll) (auto simp: find_one_def split: prod.splits)

section \<open>Registration response\<close>

text \<open>
  C1. The claim: the account returned by a successful registration does not include the
  password hash. The code returns the \<open>AdminUser\<close> object through
  \<^verbatim>\<open>response_model=AdminUser\<close>, a model that has the field \<^verbatim>\<open>hashed_password\<close>, so the
  201 body carries the hash, while \<open>get_current_user_info\<close> removes the same field before
  it answers. Registering alice on an empty store: the body binds \<^verbatim>\<open>hashed_password\<close> to
  the hash that was just computed.
\<close>

theorem register_admin_response_contains_hash:
  "\<exists>body. register_response (fst (register_admin (\<lambda>p. ''hashed:'' @ p)
       \<lparr>uuid4 = ''u-1'', utcnow = 1000, object_id = 1\<rparr> []
       \<lparr>AdminUserCreate.username = ''alice'', AdminUserCreate.email = ''alice@example.org'',
        AdminUserCreate.password = ''secret1'', AdminUserCreate.full_name = None\<rparr>)) = Inr (201, body)
     \<and> body ''hashed_password'' = Some (VStr ''hashed:secret1'')"
  by (simp add: register_admin_def register_response_def find_one_def Let_def AdminUser_dict_def)

section \<open>Duplicate registration\<close>

text \<open>
  C5. When a username and email not yet stored are registered, the call succeeds with 201,
  and any later registration with the same username fails with 400 and detail
  ``Username already registered'', leaving the collection as the first call left it. A
  registration whose email is already stored fails with 400 and leaves the collection
  unchanged.
\<close>

theorem register_admin_duplicate:
  assumes "find_one coll ''username'' (VStr (AdminUserCreate.username u1)) = None"
    and "find_one coll ''email'' (VStr (AdminUserCreate.email u1)) = None"
    and "AdminUserCreate.username u2 = AdminUserCreate.username u1"
  shows "(\<exists>obj coll1.
            register_admin h1 fr1 coll u1 = (Inr (201, obj), coll1) \<and>
            register_admin h2 fr2 coll1 u2 =
              (Inl (HTTPException 400 ''Username already registered'' []), coll1)) \<and>
         (find_one coll0 ''email'' (VStr (AdminUserCreate.email u3)) \<noteq> None \<longrightarrow>
            (\<exists>detail. register_admin h3 fr3 coll0 u3 = (Inl (HTTPException 400 detail []), coll0)))"
proof
  let ?obj = "\<lparr>AdminUser.id' = uuid4 fr1, AdminUser.username = AdminUserCreate.username u1,
                AdminUser.email = AdminUserCreate.email u1,
                AdminUser.hashed_password = h1 (AdminUserCreate.password u1),
                AdminUser.full_name = AdminUserCreate.full_name u1, AdminUser.is_active = True,
                AdminUser.is_superuser = False, AdminUser.created_at = utcnow fr1\<rparr>"
  let ?coll1 = "insert_one coll (object_id fr1) (AdminUser_dict ?obj)"
  have first: "register_admin h1 fr1 coll u1 = (Inr (201, ?obj), ?coll1)"
    using assms(1,2) by (simp add: register_admin_def Let_def)
  have "find_one ?coll1 ''username'' (VStr (AdminUserCreate.username u2)) \<noteq> None"
    using assms(1,3) by (simp add: insert_one_def find_one_append AdminUser_dict_def)
  then have "register_admin h2 fr2 ?coll1 u2 =
      (Inl (HTTPException 400 ''Username already registered'' []), ?coll1)"
    by (auto simp: register_admin_def)
  with first show "\<exists>obj coll1.
            register_admin h1 fr1 coll u1 = (Inr (201, obj), coll1) \<and>
            register_admin h2 fr2 coll1 u2 =
              (Inl (HTTPException 400 ''Username already registered'' []), coll1)"
    by blast
next
  show "find_one coll0 ''email'' (VStr (AdminUserCreate.email u3)) \<noteq> None \<longrightarrow>
            (\<exists>detail. register_admin h3 fr3 coll0 u3 = (Inl (HTTPException 400 detail []), coll0))"
    by (auto simp: register_admin_def split: option.splits)
qed

theorem register_admin_duplicate_witness:
  "find_one [] ''username'' (VStr ''alice'') = None \<and>
   find_one [] ''email'' (VStr ''alice@example.org'') = None \<and>
   (\<exists>obj coll1.
      register_admin (\<lambda>p. ''hashed:'' @ p) \<lparr>uuid4 = ''u-1'', utcnow = 1000, object_id = 1\<rparr> []
        \<lparr>AdminUserCreate.username = ''alice'', AdminUserCreate.email = ''alice@example.org'',
         AdminUserCreate.password = ''secret1'', AdminUserCreate.full_name = None\<rparr>
        = (Inr (201, obj), coll1) \<and>
      register_admin (\<lambda>p. ''hashed:'' @ p) \<lparr>uuid4 = ''u-2'', utcnow = 2000, object_id = 2\<rparr> coll1
        \<lparr>AdminUserCreate.username = ''alice'', AdminUserCreate.email = ''other@example.org'',
         AdminUserCreate.password = ''secret2'', AdminUserCreate.full_name = None\<rparr>
        = (Inl (HTTPException 400 ''Username already registered'' []), coll1)) \<and>
   find_one [alice_doc] ''email'' (VStr ''alice@example.org'') \<noteq> None \<and>
   (\<exists>detail.
      register_admin (\<lambda>p. ''hashed:'' @ p) \<lparr>uuid4 = ''u-3'', utcnow = 3000, object_id = 3\<rparr> [alice_doc]
        \<lparr>AdminUserCreate.username = ''carol'', AdminUserCreate.email = ''alice@example.org'',
         AdminUserCreate.password = ''secret3'', AdminUserCreate.full_name = None\<rparr>
        = (Inl (HTTPException 400 detail []), [alice_doc]))"
proof -
  let ?u1 = "\<lparr>AdminUserCreate.username = ''alice'', AdminUserCreate.email = ''alice@example.org'',
         AdminUserCreate.password = ''secret1'', AdminUserCreate.full_name = None\<rparr>"
  let ?u2 = "\<lparr>AdminUserCreate.username = ''alice'', AdminUserCreate.email = ''other@example.org'',
         AdminUserCreate.password = ''secret2'', AdminUserCreate.full_name = None\<rparr>"
  let ?u3 = "\<lparr>AdminUserCreate.username = ''carol'', AdminUserCreate.email = ''alice@example.org'',
         AdminUserCreate.password = ''secret3'', AdminUserCreate.full_name = None\<rparr>"
  have a: "find_one [] ''username'' (VStr (AdminUserCreate.username ?u1)) = None"
    by (simp add: find_one_def)
  have b: "find_one [] ''email'' (VStr (AdminUserCreate.email ?u1)) = None"
    by (simp add: find_one_def)
  have c: "AdminUserCreate.username ?u2 = AdminUserCreate.username ?u1"
    by simp
  have d: "find_one [alice_doc] ''email'' (VStr (AdminUserCreate.email ?u3)) \<noteq> None"
    by (simp add: find_one_def alice_doc_def)
  show ?thesis
    using a b d register_admin_duplicate [OF a b c, where ?coll0.0 = "[alice_doc]" and ?u3.0 = ?u3]
    by simp
qed

section \<open>Login failures\<close>

text \<open>
  C3. A login with a username that is not stored and a login with a stored username whose
  password does not verify against the stored hash raise the same exception: status 401,
  detail ``Incorrect username or password'', header \<^verbatim>\<open>WWW-Authenticate: Bearer\<close>.
\<close>

theorem login_no_enumeration:
  assumes "find_one coll ''username'' (VStr (AdminUserLogin.username ca)) = None"
    and "find_one coll ''username'' (VStr (AdminUserLogin.username cb)) = Some user"
    and "user ''hashed_password'' = Some h"
    and "\<not> verify_password (AdminUserLogin.password cb) h"
  shows "login verify_password create_access_token coll ca =
           login verify_password create_access_token coll cb \<and>
         login verify_password create_access_token coll cb =
           Inl (HTTPException 401 ''Incorrect username or password''
                  [(''WWW-Authenticate'', ''Bearer'')])"
  using assms by (simp add: login_def getitem_def)

theorem login_no_enumeration_witness:
  "find_one [alice_doc] ''username'' (VStr ''mallory'') = None \<and>
   find_one [alice_doc] ''username'' (VStr ''alice'') = Some alice_doc \<and>
   alice_doc ''hashed_password'' = Some (VStr ''hashed:secret1'') \<and>
   \<not> example_verify ''wrong'' (VStr ''hashed:secret1'') \<and>
   login example_verify (\<lambda>claims validity. (claims, validity)) [alice_doc]
     \<lparr>AdminUserLogin.username = ''mallory'', AdminUserLogin.password = ''guess''\<rparr> =
   login example_verify (\<lambda>claims validity. (claims, validity)) [alice_doc]
     \<lparr>AdminUserLogin.username = ''alice'', AdminUserLogin.password = ''wrong''\<rparr> \<and>
   login example_verify (\<lambda>claims validity. (claims, validity)) [alice_doc]
     \<lparr>AdminUserLogin.username = ''alice'', AdminUserLogin.password = ''wrong''\<rparr> =
   Inl (HTTPException 401 ''Incorrect username or password'' [(''WWW-Authenticate'', ''Bearer'')])"
proof -
  let ?c1 = "\<lparr>AdminUserLogin.username = ''mallory'', AdminUserLogin.password = ''guess''\<rparr>"
  let ?c2 = "\<lparr>AdminUserLogin.username = ''alice'', AdminUserLogin.password = ''wrong''\<rparr>"
  have a: "find_one [alice_doc] ''username'' (VStr (AdminUserLogin.username ?c1)) = None"
    by (simp add: find_one_def alice_doc_def)
  have b: "find_one [alice_doc] ''username'' (VStr (AdminUserLogin.username ?c2)) = Some alice_doc"
    by (simp add: find_one_def alice_doc_def)
  have c: "alice_doc ''hashed_password'' = Some (VStr ''hashed:secret1'')"
    by (simp add: alice_doc_def)
  have d: "\<not> example_verify (AdminUserLogin.password ?c2) (VStr ''hashed:secret1'')"
    by (simp add: example_verify_def)
  show ?thesis
    using a b c d login_no_enumeration [where verify_password = example_verify and ca = ?c1 and cb = ?c2
        and create_access_token = "\<lambda>claims validity. (claims, validity)", OF a b c d]
    by simp
qed

section \<open>Login on a record without \<^verbatim>\<open>is_active\<close>\<close>

text \<open>
  C10. When the stored account has no \<^verbatim>\<open>is_active\<close> field at all and the credentials are
  correct, login answers 200 with the token made from the account's username and id, not
  the 400 ``Inactive user'': the missing flag is read as true.
\<close>

theorem login_missing_is_active:
  assumes "find_one coll ''username'' (VStr (AdminUserLogin.username c)) = Some user"
    and "user ''is_active'' = None"
    and "user ''hashed_password'' = Some h"
    and "verify_password (AdminUserLogin.password c) h"
    and "user ''id'' = Some uid"
  shows "login verify_password create_access_token coll c =
           Inr (200, \<lparr>access_token =
                        create_access_token
                          [''sub'' \<mapsto> VStr (AdminUserLogin.username c), ''user_id'' \<mapsto> uid]
                          (timedelta_minutes 1440),
                      token_type = ''bearer''\<rparr>)"
proof -
  from assms(1) have "user ''username'' = Some (VStr (AdminUserLogin.username c))"
    by (simp add: find_one_SomeD)
  with assms show ?thesis
    by (simp add: login_def getitem_def get_default_def)
qed

theorem login_missing_is_active_witness:
  "find_one [alice_doc] ''username'' (VStr ''alice'') = Some alice_doc \<and>
   alice_doc ''is_active'' = None \<and>
   alice_doc ''hashed_password'' = Some (VStr ''hashed:secret1'') \<and>
   example_verify ''secret1'' (VStr ''hashed:secret1'') \<and>
   alice_doc ''id'' = Some (VStr ''u-1'') \<and>
   login example_verify (\<lambda>claims validity. (claims, validity)) [alice_doc]
     \<lparr>AdminUserLogin.username = ''alice'', AdminUserLogin.password = ''secret1''\<rparr> =
   Inr (200, \<lparr>access_token = ([''sub'' \<mapsto> VStr ''alice'', ''user_id'' \<mapsto> VStr ''u-1''],
                               timedelta_minutes 1440),
              token_type = ''bearer''\<rparr>)"
proof -
  let ?c = "\<lparr>AdminUserLogin.username = ''alice'', AdminUserLogin.password = ''secret1''\<rparr>"
  have a: "find_one [alice_doc] ''username'' (VStr (AdminUserLogin.username ?c)) = Some alice_doc"
    by (simp add: find_one_def alice_doc_def)
  have b: "alice_doc ''is_active'' = None"
    by (simp add: alice_doc_def)
  have c: "alice_doc ''hashed_password'' = Some (VStr ''hashed:secret1'')"
    by (simp add: alice_doc_def)
  have d: "example_verify (AdminUserLogin.password ?c) (VStr ''hashed:secret1'')"
    by (simp add: example_verify_def)
  have e: "alice_doc ''id'' = Some (VStr ''u-1'')"
    by (simp add: alice_doc_def)
  show ?thesis
    using a b c d e
      login_missing_is_active [where verify_password = example_verify and c = ?c
        and create_access_token = "\<lambda>claims validity. (claims, validity)", OF a b c d e]
    by simp
qed

section \<open>Password change\<close>

text \<open>
  C4. For an authenticated user whose account exists: if the current password does not
  verify against the stored hash, or the new password has fewer than 6 characters, or the
  new password equals the current one, the call raises a 400 and the collection is
  unchanged; if all three checks pass, the call answers 200 and exactly the account's
  document changes, its \<^verbatim>\<open>hashed_password\<close> becoming the hash of the new password.
\<close>

theorem change_password_checks:
  assumes "current_user ''username'' = Some uname"
    and "find_one coll ''username'' uname = Some user"
    and "user ''hashed_password'' = Some h"
  shows "(\<not> verify_password (current_password pd) h \<or> length (new_password pd) < 6 \<or>
            current_password pd = new_password pd \<longrightarrow>
          (\<exists>detail. change_password verify_password get_password_hash coll pd current_user =
             (Inl (HTTPException 400 detail []), coll))) \<and>
         (verify_password (current_password pd) h \<and> 6 \<le> length (new_password pd) \<and>
            current_password pd \<noteq> new_password pd \<longrightarrow>
          (\<exists>i<length coll. coll ! i = user \<and>
             change_password verify_password get_password_hash coll pd current_user =
               (Inr (200, [''message'' \<mapsto> VStr ''Password changed successfully'']),
                coll[i := user(''hashed_password'' \<mapsto> VStr (get_password_hash (new_password pd)))])))"
proof (intro conjI impI)
  assume "\<not> verify_password (current_password pd) h \<or> length (new_password pd) < 6 \<or>
            current_password pd = new_password pd"
  with assms show "\<exists>detail. change_password verify_password get_password_hash coll pd current_user =
             (Inl (HTTPException 400 detail []), coll)"
    by (auto simp: change_password_def getitem_def)
next
  assume ok: "verify_password (current_password pd) h \<and> 6 \<le> length (new_password pd) \<and>
            current_password pd \<noteq> new_password pd"
  from update_one_hit[OF assms(2), of "[(''hashed_password'', VStr (get_password_hash (new_password pd)))]"]
  obtain i where i: "i < length coll" "coll ! i = user"
    "fst (update_one coll ''username'' uname
            [(''hashed_password'', VStr (get_password_hash (new_password pd)))]) =
     coll[i := user(''hashed_password'' \<mapsto> VStr (get_password_hash (new_password pd)))]"
    by auto
  with assms ok show "\<exists>i<length coll. coll ! i = user \<and>
             change_password verify_password get_password_hash coll pd current_user =
               (Inr (200, [''message'' \<mapsto> VStr ''Password changed successfully'']),
                coll[i := user(''hashed_password'' \<mapsto> VStr (get_password_hash (new_password pd)))])"
    by (intro exI[of _ i]) (simp add: change_password_def getitem_def Let_def)
qed

theorem change_password_checks_witness:
  "[''username'' \<mapsto> VStr ''alice''] ''username'' = Some (VStr ''alice'') \<and>
   find_one [alice_doc] ''username'' (VStr ''alice'') = Some alice_doc \<and>
   alice_doc ''hashed_password'' = Some (VStr ''hashed:secret1'') \<and>
   (length ''short'' < 6 \<and>
    (\<exists>detail. change_password example_verify (\<lambda>p. ''hashed:'' @ p) [alice_doc]
        \<lparr>current_password = ''secret1'', new_password = ''short''\<rparr> [''username'' \<mapsto> VStr ''alice'']
      = (Inl (HTTPException 400 detail []), [alice_doc]))) \<and>
   (example_verify ''secret1'' (VStr ''hashed:secret1'') \<and> 6 \<le> length ''secret2'' \<and>
      ''secret1'' \<noteq> ''secret2'' \<and>
    (\<exists>i<length [alice_doc]. [alice_doc] ! i = alice_doc \<and>
       change_password example_verify (\<lambda>p. ''hashed:'' @ p) [alice_doc]
         \<lparr>current_password = ''secret1'', new_password = ''secret2''\<rparr>
         [''username'' \<mapsto> VStr ''alice'']
       = (Inr (200, [''message'' \<mapsto> VStr ''Password changed successfully'']),
          [alice_doc][i := alice_doc(''hashed_password'' \<mapsto> VStr ''hashed:secret2'')])))"
proof -
  let ?cu = "[''username'' \<mapsto> VStr ''alice'']"
  have a: "?cu ''username'' = Some (VStr ''alice'')"
    by simp
  have b: "find_one [alice_doc] ''username'' (VStr ''alice'') = Some alice_doc"
    by (simp add: find_one_def alice_doc_def)
  have c: "alice_doc ''hashed_password'' = Some (VStr ''hashed:secret1'')"
    by (simp add: alice_doc_def)
  have d: "example_verify ''secret1'' (VStr ''hashed:secret1'')"
    by (simp add: example_verify_def)
  show ?thesis
    using a b c d
      change_password_checks [where current_user = ?cu and user = alice_doc
        and verify_password = example_verify
        and pd = "\<lparr>current_password = ''secret1'', new_password = ''short''\<rparr>"
        and get_password_hash = "\<lambda>p. ''hashed:'' @ p", OF a b c]
      change_password_checks [where current_user = ?cu and user = alice_doc
        and verify_password = example_verify
        and pd = "\<lparr>current_password = ''secret1'', new_password = ''secret2''\<rparr>"
        and get_password_hash = "\<lambda>p. ''hashed:'' @ p", OF a b c]
    by simp
qed

section \<open>Booking submission\<close>

text \<open>
  In any run of \<open>create_booking\<close>, the sender is called only after the insert: a run that
  records the call starts with the insert of the same enquiry.
\<close>

lemma create_booking_trace:
  assumes "create_booking imported insert_fault fr coll booking = (res, coll', evs)"
    and "NotificationAttempt d \<in> set evs"
  shows "\<exists>logged. evs = Inserted d # NotificationAttempt d # logged"
  using assms
  by (auto simp: create_booking_def Let_def split: sum.splits option.splits)



section \<open>Booking status update\<close>

text \<open>
  The parts of the status update that hold on the code: a status outside the three values
  raises 400 before any write; a valid status with no enquiry of that id raises 404 and
  writes nothing; a valid status on an enquiry that the write changes is stored and the
  updated enquiry is returned with 200.
\<close>

lemma update_booking_status_invalid:
  "new_status \<notin> {''pending'', ''approved'', ''rejected''} \<Longrightarrow>
   update_booking_status cv fr coll booking_id new_status =
     (Inl (HTTPException 400 ''Invalid status'' []), coll)"
  by (simp add: update_booking_status_def)

lemma update_booking_status_missing:
  "new_status \<in> {''pending'', ''approved'', ''rejected''} \<Longrightarrow>
   find_one coll ''id'' (VStr booking_id) = None \<Longrightarrow>
   update_booking_status cv fr coll booking_id new_status =
     (Inl (HTTPException 404 ''Booking not found'' []), coll)"
  by (auto simp add: update_booking_status_def update_one_miss)

lemma Booking_parse_status:
  assumes "Booking_parse cv fr d = Inr b"
  shows "Booking_parse cv fr (d(''status'' \<mapsto> VStr st, ''updated_at'' \<mapsto> t)) = Inr (b\<lparr>status := st\<rparr>)"
  using assms
  by (simp add: Booking_parse_def field_str_def field_str_default_def field_int_def
        field_opt_str_def field_datetime_default_def)
     (auto simp: and_then_def split: sum.splits)

lemma update_booking_status_changed:
  assumes "new_status \<in> {''pending'', ''approved'', ''rejected''}"
    and "find_one coll ''id'' (VStr booking_id) = Some d"
    and "d ''status'' \<noteq> Some (VStr new_status) \<or> d ''updated_at'' \<noteq> Some (VDatetime (utcnow fr))"
    and "Booking_parse cv fr d = Inr b"
  shows "\<exists>i<length coll. coll ! i = d \<and>
           update_booking_status cv fr coll booking_id new_status =
             (Inr (200, b\<lparr>status := new_status\<rparr>),
              coll[i := d(''status'' \<mapsto> VStr new_status,
                          ''updated_at'' \<mapsto> VDatetime (utcnow fr))])"
proof -
  let ?kvs = "[(''status'', VStr new_status), (''updated_at'', VDatetime (utcnow fr))]"
  let ?d' = "d(''status'' \<mapsto> VStr new_status, ''updated_at'' \<mapsto> VDatetime (utcnow fr))"
  have sf: "set_fields d ?kvs = ?d'" by simp
  from update_one_hit[OF assms(2), of ?kvs] obtain i where
    i: "i < length coll" "coll ! i = d" "fst (update_one coll ''id'' (VStr booking_id) ?kvs) = coll[i := ?d']"
    by auto
  have ch: "changes d ?kvs" using assms(3) by (auto simp: changes_def)
  have cnt: "snd (update_one coll ''id'' (VStr booking_id) ?kvs) = 1"
    using update_one_count[OF assms(2), of ?kvs] ch by simp
  have upd: "update_one coll ''id'' (VStr booking_id) ?kvs = (coll[i := ?d'], 1)"
    using i(3) cnt by (cases "update_one coll ''id'' (VStr booking_id) ?kvs") simp
  have "d ''id'' = Some (VStr booking_id)" using assms(2) by (simp add: find_one_SomeD)
  then have "set_fields d ?kvs ''id'' = Some (VStr booking_id)" by simp
  from update_one_find[OF assms(2) this]
  have fnd: "find_one (coll[i := ?d']) ''id'' (VStr booking_id) = Some ?d'"
    using i(3) by simp
  have "update_booking_status cv fr coll booking_id new_status =
          (Inr (200, b\<lparr>status := new_status\<rparr>), coll[i := ?d'])"
    using assms(1) upd fnd Booking_parse_status[OF assms(4)]
    by (simp add: update_booking_status_def)
  with i show ?thesis by blast
qed

text \<open>
  C6. The claim: a valid status on an enquiry that matches the id is stored and answered
  with 200. The handler decides ``not found'' by \<^verbatim>\<open>modified_count\<close>, which counts changed
  documents, not matched ones. An enquiry approved at time 5000 that is approved again at
  the same clock reading matches, yet nothing changes, and the call raises 404
  ``Booking not found'' for an enquiry that is stored.
\<close>

theorem update_booking_status_same_instant:
  "find_one [approved_doc] ''id'' (VStr ''b-1'') = Some approved_doc \<and>
   update_booking_status cv \<lparr>uuid4 = ''u-9'', utcnow = 5000, object_id = 9\<rparr>
     [approved_doc] ''b-1'' ''approved''
     = (Inl (HTTPException 404 ''Booking not found'' []), [approved_doc])"
  by (simp add: update_booking_status_def find_one_def approved_doc_def changes_def fun_eq_iff)

section \<open>The notification sender\<close>

text \<open>
  The \<^verbatim>\<open>try\<close> block of \<open>send_email\<close> goes through exactly when no step raises:
  assembling, connecting, STARTTLS (an \<^verbatim>\<open>SMTPException\<close> there is passed over), login,
  serialising, sending, and QUIT (a disconnect there is passed over). \<open>send_email\<close>
  returns true exactly when the configuration is complete and the block goes through.
\<close>

lemma send_email_try_result:
  "(fst (send_email_try cfg pkg srv to_email subject html_body text_body) = Inr ()) =
     (on_assemble pkg (build_message cfg to_email subject html_body text_body) = None \<and>
      on_connect srv = None \<and>
      (case on_starttls srv of None \<Rightarrow> True | Some e \<Rightarrow> is_SMTPException e) \<and>
      on_login srv = None \<and>
      on_as_string pkg (build_message cfg to_email subject html_body text_body) = None \<and>
      on_sendmail srv = None \<and>
      (on_quit srv = None \<or> on_quit srv = Some SMTPServerDisconnected))"
  by (auto simp: send_email_try_def Let_def smtp_session_def smtp_body_def smtp_exit_def
      split: option.splits sum.splits prod.splits if_splits)

lemma send_email_result:
  "fst (send_email cfg pkg srv to_email subject html_body text_body) =
     Inr (SMTP_HOST cfg \<noteq> [] \<and> SMTP_USERNAME cfg \<noteq> [] \<and> SMTP_PASSWORD cfg \<noteq> [] \<and>
          SMTP_FROM_EMAIL cfg \<noteq> [] \<and>
          fst (send_email_try cfg pkg srv to_email subject html_body text_body) = Inr ())"
  by (cases "send_email_try cfg pkg srv to_email subject html_body text_body")
     (auto simp: send_email_def split: sum.splits)


text \<open>
  C9. For every configuration, email package, mail server and input, \<open>send_email\<close> and
  \<open>send_booking_notification\<close> return a boolean and no exception leaves them: the result
  is the truth value of ``the configuration is complete and the \<^verbatim>\<open>try\<close> block went
  through''. When one of the four SMTP settings is empty, \<open>send_email\<close> returns false and
  all it does is write the log warning; so does \<open>send_booking_notification\<close>, which also
  returns false with only its own warning when the notification address is empty. Whatever
  exception ends the \<^verbatim>\<open>try\<close> block, in assembling or serialising the message or in any
  step of the SMTP session, both functions return false. The last part says when the block
  goes through.
\<close>

theorem send_email_never_raises:
  "fst (send_email cfg pkg srv to_email subject html_body text_body) =
     Inr (SMTP_HOST cfg \<noteq> [] \<and> SMTP_USERNAME cfg \<noteq> [] \<and> SMTP_PASSWORD cfg \<noteq> [] \<and>
          SMTP_FROM_EMAIL cfg \<noteq> [] \<and>
          fst (send_email_try cfg pkg srv to_email subject html_body text_body) = Inr ()) \<and>
   fst (send_booking_notification cfg pkg srv booking) =
     Inr (NOTIFICATION_EMAIL cfg \<noteq> [] \<and>
          SMTP_HOST cfg \<noteq> [] \<and> SMTP_USERNAME cfg \<noteq> [] \<and> SMTP_PASSWORD cfg \<noteq> [] \<and>
          SMTP_FROM_EMAIL cfg \<noteq> [] \<and>
          fst (send_email_try cfg pkg srv (NOTIFICATION_EMAIL cfg) (booking_subject booking)
                 (booking_html_body booking) (Some (booking_text_body booking))) = Inr ()) \<and>
   (SMTP_HOST cfg = [] \<or> SMTP_USERNAME cfg = [] \<or> SMTP_PASSWORD cfg = [] \<or>
      SMTP_FROM_EMAIL cfg = [] \<longrightarrow>
      send_email cfg pkg srv to_email subject html_body text_body =
        (Inr False, [LogWarning ''SMTP not configured - email not sent'']) \<and>
      (NOTIFICATION_EMAIL cfg \<noteq> [] \<longrightarrow>
         send_booking_notification cfg pkg srv booking =
           (Inr False, [LogWarning ''SMTP not configured - email not sent'']))) \<and>
   (NOTIFICATION_EMAIL cfg = [] \<longrightarrow>
      send_booking_notification cfg pkg srv booking =
        (Inr False, [LogWarning ''NOTIFICATION_EMAIL not configured''])) \<and>
   (\<forall>e. fst (send_email_try cfg pkg srv to_email subject html_body text_body) = Inl e \<longrightarrow>
      fst (send_email cfg pkg srv to_email subject html_body text_body) = Inr False) \<and>
   (\<forall>e. fst (send_email_try cfg pkg srv (NOTIFICATION_EMAIL cfg) (booking_subject booking)
             (booking_html_body booking) (Some (booking_text_body booking))) = Inl e \<longrightarrow>
      fst (send_booking_notification cfg pkg srv booking) = Inr False) \<and>
   ((fst (send_email_try cfg pkg srv to_email subject html_body text_body) = Inr ()) =
      (on_assemble pkg (build_message cfg to_email subject html_body text_body) = None \<and>
       on_connect srv = None \<and>
       (case on_starttls srv of None \<Rightarrow> True | Some e \<Rightarrow> is_SMTPException e) \<and>
       on_login srv = None \<and>
       on_as_string pkg (build_message cfg to_email subject html_body text_body) = None \<and>
       on_sendmail srv = None \<and>
       (on_quit srv = None \<or> on_quit srv = Some SMTPServerDisconnected)))"
proof (intro conjI impI allI)
  show "fst (send_email cfg pkg srv to_email subject html_body text_body) =
     Inr (SMTP_HOST cfg \<noteq> [] \<and> SMTP_USERNAME cfg \<noteq> [] \<and> SMTP_PASSWORD cfg \<noteq> [] \<and>
          SMTP_FROM_EMAIL cfg \<noteq> [] \<and>
          fst (send_email_try cfg pkg srv to_email subject html_body text_body) = Inr ())"
    by (rule send_email_result)
  show "fst (send_booking_notification cfg pkg srv booking) =
     Inr (NOTIFICATION_EMAIL cfg \<noteq> [] \<and>
          SMTP_HOST cfg \<noteq> [] \<and> SMTP_USERNAME cfg \<noteq> [] \<and> SMTP_PASSWORD cfg \<noteq> [] \<and>
          SMTP_FROM_EMAIL cfg \<noteq> [] \<and>
          fst (send_email_try cfg pkg srv (NOTIFICATION_EMAIL cfg) (booking_subject booking)
                 (booking_html_body booking) (Some (booking_text_body booking))) = Inr ())"
    by (simp add: send_booking_notification_def send_email_result)
next
  assume m: "SMTP_HOST cfg = [] \<or> SMTP_USERNAME cfg = [] \<or> SMTP_PASSWORD cfg = [] \<or>
      SMTP_FROM_EMAIL cfg = []"
  then show "send_email cfg pkg srv to_email subject html_body text_body =
        (Inr False, [LogWarning ''SMTP not configured - email not sent''])"
    by (auto simp: send_email_def)
  assume "NOTIFICATION_EMAIL cfg \<noteq> []"
  with m show "send_booking_notification cfg pkg srv booking =
           (Inr False, [LogWarning ''SMTP not configured - email not sent''])"
    by (auto simp: send_booking_notification_def send_email_def)
next
  assume "NOTIFICATION_EMAIL cfg = []"
  then show "send_booking_notification cfg pkg srv booking =
        (Inr False, [LogWarning ''NOTIFICATION_EMAIL not configured''])"
    by (simp add: send_booking_notification_def)
next
  fix e
  assume "fst (send_email_try cfg pkg srv to_email subject html_body text_body) = Inl e"
  then show "fst (send_email cfg pkg srv to_email subject html_body text_body) = Inr False"
    by (simp add: send_email_result)
next
  fix e
  assume "fst (send_email_try cfg pkg srv (NOTIFICATION_EMAIL cfg) (booking_subject booking)
             (booking_html_body booking) (Some (booking_text_body booking))) = Inl e"
  then show "fst (send_booking_notification cfg pkg srv booking) = Inr False"
    by (simp add: send_booking_notification_def send_email_result)
next
  show "(fst (send_email_try cfg pkg srv to_email subject html_body text_body) = Inr ()) =
      (on_assemble pkg (build_message cfg to_email subject html_body text_body) = None \<and>
       on_connect srv = None \<and>
       (case on_starttls srv of None \<Rightarrow> True | Some e \<Rightarrow> is_SMTPException e) \<and>
       on_login srv = None \<and>
       on_as_string pkg (build_message cfg to_email subject html_body text_body) = None \<and>
       on_sendmail srv = None \<and>
       (on_quit srv = None \<or> on_quit srv = Some SMTPServerDisconnected))"
    by (rule send_email_try_result)
qed


theorem send_email_never_raises_witness:
  "SMTP_HOST (example_config\<lparr>SMTP_HOST := []\<rparr>) = [] \<and>
   NOTIFICATION_EMAIL (example_config\<lparr>SMTP_HOST := []\<rparr>) \<noteq> [] \<and>
   send_email (example_config\<lparr>SMTP_HOST := []\<rparr>) plain_package accepting_server
     ''hall@example.org'' [Lit ''Hello''] [Lit ''<p>Hello</p>''] None
     = (Inr False, [LogWarning ''SMTP not configured - email not sent'']) \<and>
   send_booking_notification (example_config\<lparr>SMTP_HOST := []\<rparr>) plain_package accepting_server
     approved_doc
     = (Inr False, [LogWarning ''SMTP not configured - email not sent'']) \<and>
   NOTIFICATION_EMAIL (example_config\<lparr>NOTIFICATION_EMAIL := []\<rparr>) = [] \<and>
   send_booking_notification (example_config\<lparr>NOTIFICATION_EMAIL := []\<rparr>) plain_package
     accepting_server approved_doc
     = (Inr False, [LogWarning ''NOTIFICATION_EMAIL not configured'']) \<and>
   fst (send_email_try example_config plain_package rejecting_server ''hall@example.org''
          [Lit ''Hello''] [Lit ''<p>Hello</p>''] None) = Inl SMTPAuthenticationError \<and>
   fst (send_email example_config plain_package rejecting_server ''hall@example.org''
          [Lit ''Hello''] [Lit ''<p>Hello</p>''] None) = Inr False \<and>
   fst (send_email_try example_config strict_package accepting_server
          (NOTIFICATION_EMAIL example_config) (booking_subject injected_doc)
          (booking_html_body injected_doc) (Some (booking_text_body injected_doc)))
     = Inl HeaderParseError \<and>
   fst (send_booking_notification example_config strict_package accepting_server injected_doc)
     = Inr False \<and>
   fst (send_email example_config plain_package accepting_server ''hall@example.org''
          [Lit ''Hello''] [Lit ''<p>Hello</p>''] None) = Inr True"
proof -
  let ?to = "''hall@example.org''" and ?s = "[Lit ''Hello'']" and ?h = "[Lit ''<p>Hello</p>'']"
  have a: "SMTP_HOST (example_config\<lparr>SMTP_HOST := []\<rparr>) = []"
    by simp
  have a': "NOTIFICATION_EMAIL (example_config\<lparr>SMTP_HOST := []\<rparr>) \<noteq> []"
    by (simp add: example_config_def)
  have b: "NOTIFICATION_EMAIL (example_config\<lparr>NOTIFICATION_EMAIL := []\<rparr>) = []"
    by simp
  have c: "fst (send_email_try example_config plain_package rejecting_server ?to ?s ?h None)
             = Inl SMTPAuthenticationError"
    by (simp add: send_email_try_def Let_def plain_package_def rejecting_server_def
          smtp_session_def smtp_body_def smtp_exit_def)
  have d: "fst (send_email_try example_config strict_package accepting_server
                  (NOTIFICATION_EMAIL example_config) (booking_subject injected_doc)
                  (booking_html_body injected_doc) (Some (booking_text_body injected_doc)))
             = Inl HeaderParseError"
    by (simp add: send_email_try_def Let_def strict_package_def accepting_server_def
          build_message_def booking_subject_def injected_doc_def get_default_def
          smtp_session_def smtp_body_def smtp_exit_def)
  have e: "fst (send_email_try example_config plain_package accepting_server ?to ?s ?h None)
             = Inr ()"
    by (simp add: send_email_try_def Let_def plain_package_def accepting_server_def
          smtp_session_def smtp_body_def smtp_exit_def)
  have cfg: "SMTP_HOST example_config \<noteq> [] \<and> SMTP_USERNAME example_config \<noteq> [] \<and>
             SMTP_PASSWORD example_config \<noteq> [] \<and> SMTP_FROM_EMAIL example_config \<noteq> []"
    by (simp add: example_config_def)
  note t1 = send_email_never_raises [of "example_config\<lparr>SMTP_HOST := []\<rparr>" plain_package
      accepting_server ?to ?s ?h None approved_doc]
  note t2 = send_email_never_raises [of "example_config\<lparr>NOTIFICATION_EMAIL := []\<rparr>"
      plain_package accepting_server ?to ?s ?h None approved_doc]
  note t3 = send_email_never_raises [of example_config plain_package rejecting_server
      ?to ?s ?h None approved_doc]
  note t4 = send_email_never_raises [of example_config strict_package accepting_server
      ?to ?s ?h None injected_doc]
  note t5 = send_email_never_raises [of example_config plain_package accepting_server
      ?to ?s ?h None approved_doc]
  have r1: "send_email (example_config\<lparr>SMTP_HOST := []\<rparr>) plain_package accepting_server
              ?to ?s ?h None = (Inr False, [LogWarning ''SMTP not configured - email not sent''])"
    and r2: "send_booking_notification (example_config\<lparr>SMTP_HOST := []\<rparr>) plain_package
               accepting_server approved_doc
             = (Inr False, [LogWarning ''SMTP not configured - email not sent''])"
    using t1 a a' by blast+
  have r3: "send_booking_notification (example_config\<lparr>NOTIFICATION_EMAIL := []\<rparr>) plain_package
              accepting_server approved_doc
            = (Inr False, [LogWarning ''NOTIFICATION_EMAIL not configured''])"
    using t2 b by blast
  have r4: "fst (send_email example_config plain_package rejecting_server ?to ?s ?h None)
              = Inr False"
    using t3 c by blast
  have r5: "fst (send_booking_notification example_config strict_package accepting_server
                   injected_doc) = Inr False"
    using t4 d by blast
  have r6: "fst (send_email example_config plain_package accepting_server ?to ?s ?h None)
              = Inr True"
    using t5 e cfg by simp
  from a a' b c d r1 r2 r3 r4 r5 r6 show ?thesis
    by (intro conjI)
qed

section \<open>Validity of the login token\<close>

text \<open>What a successful login returns: the token issued for the stored account.\<close>

lemma login_success_shape:
  assumes "login verify_password create_access_token coll c = Inr (code, resp)"
  shows "\<exists>user uid. find_one coll ''username'' (VStr (AdminUserLogin.username c)) = Some user \<and>
           user ''id'' = Some uid \<and> code = 200 \<and>
           access_token resp =
             create_access_token [''sub'' \<mapsto> VStr (AdminUserLogin.username c), ''user_id'' \<mapsto> uid]
               (timedelta_minutes 1440)"
proof -
  from assms obtain user where
    u: "find_one coll ''username'' (VStr (AdminUserLogin.username c)) = Some user"
    by (auto simp: login_def split: option.splits)
  then have n: "user ''username'' = Some (VStr (AdminUserLogin.username c))"
    by (simp add: find_one_SomeD)
  from assms u n show ?thesis
    by (auto simp: login_def getitem_def split: option.splits if_splits)
qed

text \<open>
  C7. With the token service of the specification as the issuer: the token returned by a
  successful login expires 24 hours (in seconds) after its issuance time, which is the
  time of the call; verified at the time of issuance it yields the claims, the username
  under \<^verbatim>\<open>sub\<close> and the account's id under \<^verbatim>\<open>user_id\<close>; verified at any time at or
  after issuance plus 24 hours it fails with \<open>Expired\<close>.
\<close>

theorem login_token_validity:
  assumes "login verify_password (create_access_token_spec sign now) coll c = Inr (code, resp)"
  shows "expires_at (access_token resp) = issued_at (access_token resp) + 24 * 60 * 60 \<and>
         issued_at (access_token resp) = now \<and>
         (\<exists>user uid. find_one coll ''username'' (VStr (AdminUserLogin.username c)) = Some user \<and>
            user ''id'' = Some uid \<and>
            verify_token_spec sign now (access_token resp) =
              Inr [''sub'' \<mapsto> VStr (AdminUserLogin.username c), ''user_id'' \<mapsto> uid]) \<and>
         (\<forall>t. now + 24 * 60 * 60 \<le> t \<longrightarrow>
            verify_token_spec sign t (access_token resp) = Inl Expired)"
proof -
  from login_success_shape[OF assms] obtain user uid where
    u: "find_one coll ''username'' (VStr (AdminUserLogin.username c)) = Some user"
       "user ''id'' = Some uid"
    and tok: "access_token resp =
       create_access_token_spec sign now
         [''sub'' \<mapsto> VStr (AdminUserLogin.username c), ''user_id'' \<mapsto> uid] (timedelta_minutes 1440)"
    by blast
  have v: "timedelta_minutes 1440 = 24 * 60 * 60"
    by (simp add: timedelta_minutes_def)
  show ?thesis
    using u by (auto simp: tok v create_access_token_spec_def verify_token_spec_def)
qed

theorem login_token_validity_witness:
  "login example_verify (create_access_token_spec snd 100) [alice_doc]
     \<lparr>AdminUserLogin.username = ''alice'', AdminUserLogin.password = ''secret1''\<rparr>
     = Inr (200, \<lparr>access_token = alice_token, token_type = ''bearer''\<rparr>) \<and>
   expires_at alice_token = issued_at alice_token + 24 * 60 * 60 \<and>
   issued_at alice_token = 100 \<and>
   verify_token_spec snd 100 alice_token
     = Inr [''sub'' \<mapsto> VStr ''alice'', ''user_id'' \<mapsto> VStr ''u-1''] \<and>
   (100::nat) + 24 * 60 * 60 \<le> 86500 \<and>
   verify_token_spec snd 86500 alice_token = Inl Expired"
proof -
  let ?c = "\<lparr>AdminUserLogin.username = ''alice'', AdminUserLogin.password = ''secret1''\<rparr>"
  let ?resp = "\<lparr>access_token = alice_token, token_type = ''bearer''\<rparr>"
  have run: "login example_verify (create_access_token_spec snd 100) [alice_doc] ?c = Inr (200, ?resp)"
    by (simp add: login_def find_one_def alice_doc_def example_verify_def getitem_def
          get_default_def alice_token_def)
  have fnd: "find_one [alice_doc] ''username'' (VStr (AdminUserLogin.username ?c)) = Some alice_doc"
    by (simp add: find_one_def alice_doc_def)
  have uid: "alice_doc ''id'' = Some (VStr ''u-1'')"
    by (simp add: alice_doc_def)
  have le: "(100::nat) + 24 * 60 * 60 \<le> 86500"
    by simp
  from login_token_validity [OF run] fnd uid le run show ?thesis
    by auto
qed

section \<open>The password hasher\<close>

text \<open>
  C8. With the hasher of the specification: every plaintext verifies against its own
  hash; two hashes of the same plaintext drawn with distinct salts are different strings
  and both verify; on any stored string the verifier returns a boolean, and on a
  malformed one, which embeds no salt, it returns false.
\<close>

theorem password_hash_roundtrip:
  assumes "length s1 = n" and "length s2 = n" and "s1 \<noteq> s2"
  shows "verify_password_spec n kdf p (get_password_hash_spec kdf s1 p) = Inr True \<and>
         verify_password_spec n kdf p (get_password_hash_spec kdf s2 p) = Inr True \<and>
         get_password_hash_spec kdf s1 p \<noteq> get_password_hash_spec kdf s2 p \<and>
         (\<forall>stored. \<exists>b. verify_password_spec n kdf p stored = Inr b) \<and>
         (\<forall>stored. embedded_salt n stored = None \<longrightarrow>
            verify_password_spec n kdf p stored = Inr False)"
  using assms
  by (auto simp: verify_password_spec_def get_password_hash_spec_def embedded_salt_def
      split: option.splits)

theorem password_hash_roundtrip_witness:
  "length ''salt'' = 4 \<and> length ''pepa'' = 4 \<and> ''salt'' \<noteq> ''pepa'' \<and>
   verify_password_spec 4 (\<lambda>s p. rev p @ s) ''secret1''
     (get_password_hash_spec (\<lambda>s p. rev p @ s) ''salt'' ''secret1'') = Inr True \<and>
   verify_password_spec 4 (\<lambda>s p. rev p @ s) ''secret1''
     (get_password_hash_spec (\<lambda>s p. rev p @ s) ''pepa'' ''secret1'') = Inr True \<and>
   get_password_hash_spec (\<lambda>s p. rev p @ s) ''salt'' ''secret1''
     \<noteq> get_password_hash_spec (\<lambda>s p. rev p @ s) ''pepa'' ''secret1'' \<and>
   embedded_salt 4 ''abc'' = None \<and>
   verify_password_spec 4 (\<lambda>s p. rev p @ s) ''secret1'' ''abc'' = Inr False"
proof -
  have a: "length ''salt'' = 4" and b: "length ''pepa'' = 4" and c: "''salt'' \<noteq> ''pepa''"
    by simp_all
  have d: "embedded_salt 4 ''abc'' = None"
    by (simp add: embedded_salt_def)
  from password_hash_roundtrip [OF a b c, of "\<lambda>s p. rev p @ s" "''secret1''"] a b c d
  show ?thesis
    by blast
qed

end
